theory Spec2Isabelle
  imports Main
begin

section \<open>Data model of \<open>createProject\<close> (packages/vue-language-server/src/utils/project.ts)\<close>

text \<open>
  The module is one closure: \<open>createProject\<close> declares four mutable variables
  (\<open>typeRootVersion\<close>, \<open>projectVersion\<close>, \<open>vueLs\<close>, \<open>parsedCommandLine\<close>) and the path map
  \<open>scripts\<close>, and returns functions that read and write them. The closure's variables are
  the record \<open>project\<close>; every function takes the record and returns the updated one.
  Everything the closure receives from outside (the file system \<open>projectSys\<close>, the document
  store \<open>documents\<close>, the factory \<open>languageConfigs.createLanguageService\<close>, the request
  handlers, the connection) is a field of the record \<open>env\<close>, passed at each call since the
  outside world may differ from one call to the next. Calls that leave the closure are
  listed, in order, in a \<open>call list\<close> returned beside the result.

  JavaScript numbers are modelled as \<open>int\<close>: the counters and versions only ever hold
  integers reached by adding or subtracting one, which are exact below \<open>2 ^ 53\<close>.
\<close>

datatype FileChangeType = Created | Changed | Deleted

record FileEvent =
  uri :: string
  type :: FileChangeType

datatype IScriptSnapshot = ScriptSnapshot_fromString string

record script =
  version :: int
  fileName :: string
  snapshot :: "IScriptSnapshot option"
  snapshotVersion :: "int option"

text \<open>An open document of the document store: \<open>doc.version\<close> and \<open>doc.getSnapshot()\<close>.\<close>

record document =
  doc_version :: int
  getSnapshot :: IScriptSnapshot

record ('ls, 'pcl) project =
  typeRootVersion :: int
  projectVersion :: int
  vueLs :: "'ls option"
  parsedCommandLine :: 'pcl
  scripts :: "string \<rightharpoonup> script"

text \<open>The outcome of a promise: resolved with a value or rejected with a reason.\<close>

datatype 'a promise = Resolved 'a | Rejected string

record ResponseError =
  message :: string

record languageFeatures =
  schemaRequestService :: bool

record ServerInitializationOptions =
  languageFeatures :: "languageFeatures option"

text \<open>
  \<open>shared.createPathMap\<close> is not part of this file: it is a map whose keys are normalised
  from a URI (\<open>uriGet\<close>, \<open>uriDelete\<close>) or from a file-system path (\<open>fsPathGet\<close>,
  \<open>fsPathSet\<close>). The two normalisations are the parameters \<open>uriKey\<close> and \<open>fsPathKey\<close>.
  \<open>documents_fsPathGet\<close> is \<open>documents.data.fsPathGet\<close>, \<open>createParsedCommandLine\<close> is what
  the function of that name returns when called in this environment, and
  \<open>createLanguageService\<close> is the instance the factory returns when called in it.
\<close>

record ('ls, 'pcl) env =
  uriKey :: "string \<Rightarrow> string"
  fsPathKey :: "string \<Rightarrow> string"
  documents_fsPathGet :: "string \<Rightarrow> document option"
  fileExists :: "string \<Rightarrow> bool"
  readFile :: "string \<Rightarrow> string option"
  createParsedCommandLine :: 'pcl
  createLanguageService :: 'ls
  schemaRequestHandlers :: "string \<Rightarrow> (string \<Rightarrow> string promise) option"
  options :: ServerInitializationOptions
  sendRequest :: "string \<Rightarrow> ResponseError + string"

datatype call =
    FileExists string
  | ReadFile string
  | CreateParsedCommandLine
  | LoadCustomPlugins
  | CreateLanguageService
  | LanguageServiceDispose
  | BuiltInHandler string string
  | SendRequest string

section \<open>Number.prototype.toString on integers\<close>

fun digits :: "nat \<Rightarrow> string" where
  "digits n =
     (if n < 10 then [''0123456789'' ! n]
      else digits (n div 10) @ [''0123456789'' ! (n mod 10)])"

definition toString :: "int \<Rightarrow> string" where
  "toString i = (if i < 0 then CHR ''-'' # digits (nat (- i)) else digits (nat i))"

section \<open>The closure's functions\<close>

definition createProject :: "('ls, 'pcl) env \<Rightarrow> ('ls, 'pcl) project" where
  "createProject e =
     \<lparr> typeRootVersion = 0, projectVersion = 0, vueLs = None,
       parsedCommandLine = createParsedCommandLine e, scripts = Map.empty \<rparr>"

subsection \<open>\<open>onWorkspaceFilesChanged\<close> and \<open>onDocumentUpdated\<close>\<close>

text \<open>The body of \<open>for (const change of changes)\<close>, lines 98 to 112.\<close>

definition changeLoopBody ::
  "('ls, 'pcl) env \<Rightarrow> FileEvent \<Rightarrow> ('ls, 'pcl) project \<Rightarrow> ('ls, 'pcl) project" where
  "changeLoopBody e change st =
     (let st1 =
        (case scripts st (uriKey e (uri change)) of
           Some s \<Rightarrow>
             if type change = Changed \<or> type change = Created then
               st\<lparr>scripts := (scripts st)(uriKey e (uri change) \<mapsto>
                    (if version s \<ge> 0 then s\<lparr>version := - 1\<rparr>
                     else s\<lparr>version := version s - 1\<rparr>))\<rparr>
             else if type change = Deleted then
               st\<lparr>scripts := (scripts st)(uriKey e (uri change) := None)\<rparr>
             else st
         | None \<Rightarrow> st)
      in st1\<lparr>projectVersion := projectVersion st1 + 1\<rparr>)"

fun changeLoop ::
  "('ls, 'pcl) env \<Rightarrow> FileEvent list \<Rightarrow> ('ls, 'pcl) project \<Rightarrow> ('ls, 'pcl) project" where
  "changeLoop e [] st = st"
| "changeLoop e (change # changes) st = changeLoop e changes (changeLoopBody e change st)"

definition onWorkspaceFilesChanged ::
  "('ls, 'pcl) env \<Rightarrow> FileEvent list \<Rightarrow> ('ls, 'pcl) project
     \<Rightarrow> ('ls, 'pcl) project \<times> call list" where
  "onWorkspaceFilesChanged e changes st =
     (let st1 = changeLoop e changes st;
          creates = filter (\<lambda>change. type change = Created) changes;
          deletes = filter (\<lambda>change. type change = Deleted) changes
      in if length creates \<noteq> 0 \<or> length deletes \<noteq> 0 then
           (st1\<lparr>parsedCommandLine := createParsedCommandLine e,
                typeRootVersion := typeRootVersion st1 + 1\<rparr>,
            [CreateParsedCommandLine])
         else (st1, []))"

definition onDocumentUpdated :: "('ls, 'pcl) project \<Rightarrow> ('ls, 'pcl) project" where
  "onDocumentUpdated st = st\<lparr>projectVersion := projectVersion st + 1\<rparr>"

subsection \<open>\<open>getLanguageService\<close> and the content resolution it wires in\<close>

text \<open>\<open>String.prototype.indexOf\<close> for one character: \<open>- 1\<close> when it does not occur.\<close>

fun indexOf :: "string \<Rightarrow> char \<Rightarrow> int" where
  "indexOf [] c = - 1"
| "indexOf (x # xs) c =
     (if x = c then 0 else (let i = indexOf xs c in if i < 0 then - 1 else i + 1))"

text \<open>\<open>uri.substring(0, j)\<close>: a negative end is taken as \<open>0\<close>.\<close>

definition substring0 :: "string \<Rightarrow> int \<Rightarrow> string" where
  "substring0 s j = (if j < 0 then [] else take (nat j) s)"

text \<open>
  \<open>runtimeEnv.schemaRequestHandlers\<close> is an ordinary object indexed by protocol; the
  field \<open>schemaRequestHandlers\<close> of \<open>env\<close> holds its own properties. Line 57 reads a
  property of it, and a property read that finds no own property goes on to
  \<open>Object.prototype\<close>. What matters of the value read is what the test of line 58 and
  the call of line 59 do with it: a handler returns a promise; \<open>Object.prototype\<close>
  itself (read under \<open>__proto__\<close>) is truthy and cannot be called; the functions
  \<open>Object.prototype\<close> holds, called as \<open>builtInHandler(uri)\<close> (no receiver, a string
  argument, strict code), either return a value that is not a promise (\<open>Object(uri)\<close>
  under \<open>constructor\<close>, \<open>[object Undefined]\<close> under \<open>toString\<close>, \<open>false\<close> under
  \<open>isPrototypeOf\<close>) or throw a \<open>TypeError\<close> on the missing receiver.
\<close>

datatype property =
    Handler "string \<Rightarrow> string promise"
  | NonCallable
  | NonPromiseFunction
  | ThrowingFunction

definition Object_prototype :: "string \<Rightarrow> property option" where
  "Object_prototype name =
     (if name = ''__proto__'' then Some NonCallable
      else if name = ''constructor'' \<or> name = ''toString'' \<or> name = ''isPrototypeOf''
        then Some NonPromiseFunction
      else if name = ''hasOwnProperty'' \<or> name = ''propertyIsEnumerable'' \<or>
              name = ''toLocaleString'' \<or> name = ''valueOf'' \<or>
              name = ''__defineGetter__'' \<or> name = ''__defineSetter__'' \<or>
              name = ''__lookupGetter__'' \<or> name = ''__lookupSetter__''
        then Some ThrowingFunction
      else None)"

text \<open>The property read \<open>object[name]\<close>: \<open>None\<close> is \<open>undefined\<close>.\<close>

definition getProperty ::
  "(string \<Rightarrow> (string \<Rightarrow> string promise) option) \<Rightarrow> string \<Rightarrow> property option" where
  "getProperty own name =
     (case own name of Some h \<Rightarrow> Some (Handler h) | None \<Rightarrow> Object_prototype name)"

text \<open>What a call of the content resolution gives its caller: a promise, a value that is
  not a promise, or a \<open>TypeError\<close> thrown before anything is returned.\<close>

datatype resolution = Promise "string promise" | NotAPromise | TypeError

text \<open>
  The arrow function of lines 53 to 72. It reads \<open>runtimeEnv\<close>, \<open>options\<close> and
  \<open>connection\<close> and assigns none of the closure's variables; the project is passed
  through so that this can be stated. \<open>BuiltInHandler protocol uri\<close> records the call of
  line 59, whatever function it reaches.
\<close>

definition schemaRequest ::
  "('ls, 'pcl) env \<Rightarrow> string \<Rightarrow> ('ls, 'pcl) project
     \<Rightarrow> resolution \<times> ('ls, 'pcl) project \<times> call list" where
  "schemaRequest e u st =
     (let protocol = substring0 u (indexOf u CHR '':'') in
      case getProperty (schemaRequestHandlers e) protocol of
        Some (Handler builtInHandler) \<Rightarrow>
          (Promise (builtInHandler u), st, [BuiltInHandler protocol u])
      | Some NonCallable \<Rightarrow> (TypeError, st, [])
      | Some NonPromiseFunction \<Rightarrow> (NotAPromise, st, [BuiltInHandler protocol u])
      | Some ThrowingFunction \<Rightarrow> (TypeError, st, [BuiltInHandler protocol u])
      | None \<Rightarrow>
          (case languageFeatures (options e) of
             Some lf \<Rightarrow>
               if schemaRequestService lf then
                 (case sendRequest e u of
                    Inr responseText \<Rightarrow> (Promise (Resolved responseText), st, [SendRequest u])
                  | Inl error \<Rightarrow> (Promise (Rejected (message error)), st, [SendRequest u]))
               else
                 (Promise (Rejected ''clientHandledGetDocumentContentRequest is false''), st, [])
           | None \<Rightarrow>
               (Promise (Rejected ''clientHandledGetDocumentContentRequest is false''), st, [])))"

definition getLanguageService ::
  "('ls, 'pcl) env \<Rightarrow> ('ls, 'pcl) project \<Rightarrow> 'ls \<times> ('ls, 'pcl) project \<times> call list" where
  "getLanguageService e st =
     (case vueLs st of
        None \<Rightarrow>
          (createLanguageService e, st\<lparr>vueLs := Some (createLanguageService e)\<rparr>,
           [LoadCustomPlugins, CreateLanguageService])
      | Some ls \<Rightarrow> (ls, st, []))"

subsection \<open>The language service host: \<open>getScriptVersion\<close> and \<open>getScriptSnapshot\<close>\<close>

definition getScriptVersion ::
  "('ls, 'pcl) env \<Rightarrow> ('ls, 'pcl) project \<Rightarrow> string \<Rightarrow> string" where
  "getScriptVersion e st f =
     (case documents_fsPathGet e f of
        Some doc \<Rightarrow> toString (doc_version doc)
      | None \<Rightarrow>
          (case scripts st (fsPathKey e f) of
             Some s \<Rightarrow> toString (version s)
           | None \<Rightarrow> []))"

text \<open>The part of \<open>getScriptSnapshot\<close> from line 186 on: the read from \<open>projectSys\<close>.\<close>

definition readFromSys ::
  "('ls, 'pcl) env \<Rightarrow> ('ls, 'pcl) project \<Rightarrow> string
     \<Rightarrow> IScriptSnapshot option \<times> ('ls, 'pcl) project \<times> call list" where
  "readFromSys e st f =
     (if fileExists e f then
        (case readFile e f of
           Some text \<Rightarrow>
             (let snap = ScriptSnapshot_fromString text in
              case scripts st (fsPathKey e f) of
                Some s \<Rightarrow>
                  (Some snap,
                   st\<lparr>scripts := (scripts st)(fsPathKey e f \<mapsto>
                        s\<lparr>snapshot := Some snap, snapshotVersion := Some (version s)\<rparr>)\<rparr>,
                   [FileExists f, ReadFile f])
              | None \<Rightarrow>
                  (Some snap,
                   st\<lparr>scripts := (scripts st)(fsPathKey e f \<mapsto>
                        \<lparr> version = - 1, fileName = f, snapshot = Some snap,
                          snapshotVersion = Some (- 1) \<rparr>)\<rparr>,
                   [FileExists f, ReadFile f]))
         | None \<Rightarrow> (None, st, [FileExists f, ReadFile f]))
      else (None, st, [FileExists f]))"

definition getScriptSnapshot ::
  "('ls, 'pcl) env \<Rightarrow> ('ls, 'pcl) project \<Rightarrow> string
     \<Rightarrow> IScriptSnapshot option \<times> ('ls, 'pcl) project \<times> call list" where
  "getScriptSnapshot e st f =
     (case documents_fsPathGet e f of
        Some doc \<Rightarrow> (Some (getSnapshot doc), st, [])
      | None \<Rightarrow>
          (case scripts st (fsPathKey e f) of
             Some s \<Rightarrow>
               if snapshotVersion s = Some (version s) then (snapshot s, st, [])
               else readFromSys e st f
           | None \<Rightarrow> readFromSys e st f))"

subsection \<open>\<open>dispose\<close>\<close>

definition dispose :: "('ls, 'pcl) project \<Rightarrow> ('ls, 'pcl) project \<times> call list" where
  "dispose st =
     (st\<lparr>scripts := Map.empty\<rparr>,
      (case vueLs st of Some ls \<Rightarrow> [LanguageServiceDispose] | None \<Rightarrow> []))"

subsection \<open>Sequences of calls on one project\<close>

datatype op =
    OnWorkspaceFilesChanged "FileEvent list"
  | OnDocumentUpdated
  | GetLanguageService
  | GetLanguageServiceDontCreate
  | GetParsedCommandLine
  | Dispose
  | GetScriptVersion string
  | GetScriptSnapshot string
  | SchemaRequest string

fun exec ::
  "('ls, 'pcl) env \<Rightarrow> op \<Rightarrow> ('ls, 'pcl) project \<Rightarrow> ('ls, 'pcl) project \<times> call list" where
  "exec e (OnWorkspaceFilesChanged changes) st = onWorkspaceFilesChanged e changes st"
| "exec e OnDocumentUpdated st = (onDocumentUpdated st, [])"
| "exec e GetLanguageService st = snd (getLanguageService e st)"
| "exec e GetLanguageServiceDontCreate st = (st, [])"
| "exec e GetParsedCommandLine st = (st, [])"
| "exec e Dispose st = dispose st"
| "exec e (GetScriptVersion f) st = (st, [])"
| "exec e (GetScriptSnapshot f) st = snd (getScriptSnapshot e st f)"
| "exec e (SchemaRequest u) st = snd (schemaRequest e u st)"

fun run ::
  "(('ls, 'pcl) env \<times> op) list \<Rightarrow> ('ls, 'pcl) project \<Rightarrow> ('ls, 'pcl) project \<times> call list" where
  "run [] st = (st, [])"
| "run ((e, operation) # rest) st =
     (let (st1, c1) = exec e operation st; (st2, c2) = run rest st1 in (st2, c1 @ c2))"

section \<open>A concrete project\<close>

text \<open>
  One environment and a few project states on which the theorems below are evaluated.
  URIs are their own keys and a path \<open>p\<close> has the key \<open>file://p\<close>. The document
  \<open>/open.ts\<close> is open, \<open>/a.ts\<close> is on disk, \<open>/locked.ts\<close> exists but cannot be read.
\<close>

definition env0 :: "(nat, string list) env" where
  "env0 =
     \<lparr> uriKey = (\<lambda>u. u),
       fsPathKey = (\<lambda>p. ''file://'' @ p),
       documents_fsPathGet =
         (\<lambda>f. if f = ''/open.ts''
              then Some \<lparr> doc_version = 3, getSnapshot = ScriptSnapshot_fromString ''live'' \<rparr>
              else None),
       fileExists = (\<lambda>f. f = ''/a.ts'' \<or> f = ''/locked.ts''),
       readFile = (\<lambda>f. if f = ''/a.ts'' then Some ''let a'' else None),
       createParsedCommandLine = [''/a.ts''],
       createLanguageService = 1,
       schemaRequestHandlers =
         (\<lambda>p. if p = ''http'' then Some (\<lambda>u. Resolved ''{}'') else None),
       options = \<lparr> languageFeatures = Some \<lparr> schemaRequestService = True \<rparr> \<rparr>,
       sendRequest =
         (\<lambda>u. if u = ''vscode://schemas/x'' then Inr ''schema''
              else Inl \<lparr> message = ''not found'' \<rparr>) \<rparr>"

text \<open>The same environment a moment later: the factory would now build another instance,
  and the client does not serve content requests.\<close>

definition env1 :: "(nat, string list) env" where
  "env1 = env0\<lparr> createLanguageService := 2,
                 options := \<lparr> languageFeatures = Some \<lparr> schemaRequestService = False \<rparr> \<rparr> \<rparr>"

definition entry0 :: script where
  "entry0 =
     \<lparr> version = 0, fileName = ''/a.ts'',
       snapshot = Some (ScriptSnapshot_fromString ''old''), snapshotVersion = Some 0 \<rparr>"

text \<open>\<open>/a.ts\<close> tracked with a valid cache, no language service yet.\<close>

definition st0 :: "(nat, string list) project" where
  "st0 =
     \<lparr> typeRootVersion = 0, projectVersion = 0, vueLs = None, parsedCommandLine = [],
       scripts = [''file:///a.ts'' \<mapsto> entry0] \<rparr>"

text \<open>\<open>/a.ts\<close> tracked with a stale cache (changed once since it was read), the language
  service built.\<close>

definition st1 :: "(nat, string list) project" where
  "st1 =
     \<lparr> typeRootVersion = 0, projectVersion = 1, vueLs = Some 1, parsedCommandLine = [],
       scripts = [''file:///a.ts'' \<mapsto> entry0\<lparr>version := - 1\<rparr>] \<rparr>"

definition changed_a :: FileEvent where
  "changed_a = \<lparr> uri = ''file:///a.ts'', type = Changed \<rparr>"

definition deleted_a :: FileEvent where
  "deleted_a = \<lparr> uri = ''file:///a.ts'', type = Deleted \<rparr>"

definition created_new :: FileEvent where
  "created_new = \<lparr> uri = ''file:///new.ts'', type = Created \<rparr>"

definition deleted_old :: FileEvent where
  "deleted_old = \<lparr> uri = ''file:///old.ts'', type = Deleted \<rparr>"

section \<open>Project version\<close>

lemma changeLoopBody_projectVersion:
  "projectVersion (changeLoopBody e change st) = projectVersion st + 1"
  by (simp add: changeLoopBody_def Let_def split: option.splits)

lemma changeLoop_projectVersion:
  "projectVersion (changeLoop e changes st) = projectVersion st + int (length changes)"
  by (induction changes arbitrary: st) (simp_all add: changeLoopBody_projectVersion)

text \<open>
  C1. A batch of \<open>N\<close> file events passed to \<open>onWorkspaceFilesChanged\<close> leaves
  \<open>projectVersion\<close> at its value before the call plus \<open>N\<close>, whatever the kinds of the
  events and whether or not their paths have an entry in \<open>scripts\<close>.
\<close>

theorem onWorkspaceFilesChanged_projectVersion:
  "projectVersion (fst (onWorkspaceFilesChanged e changes st))
     = projectVersion st + int (length changes)"
  by (simp add: onWorkspaceFilesChanged_def Let_def changeLoop_projectVersion)

theorem onWorkspaceFilesChanged_projectVersion_witness:
  "projectVersion (fst (onWorkspaceFilesChanged env0 [created_new, changed_a, deleted_old] st0)) = 3"
  using onWorkspaceFilesChanged_projectVersion [of env0 "[created_new, changed_a, deleted_old]" st0]
  by (simp add: st0_def)

section \<open>The event loop and the registry\<close>

lemma changeLoopBody_frame:
  "typeRootVersion (changeLoopBody e change st) = typeRootVersion st"
  "parsedCommandLine (changeLoopBody e change st) = parsedCommandLine st"
  "vueLs (changeLoopBody e change st) = vueLs st"
  by (simp_all add: changeLoopBody_def Let_def split: option.splits)

lemma changeLoop_frame:
  "typeRootVersion (changeLoop e changes st) = typeRootVersion st"
  "parsedCommandLine (changeLoop e changes st) = parsedCommandLine st"
  "vueLs (changeLoop e changes st) = vueLs st"
  by (induction changes arbitrary: st) (simp_all add: changeLoopBody_frame)

lemma creates_or_deletes:
  "(length (filter (\<lambda>change. type change = Created) changes) \<noteq> 0 \<or>
    length (filter (\<lambda>change. type change = Deleted) changes) \<noteq> 0)
   = (\<exists>c\<in>set changes. type c = Created \<or> type c = Deleted)"
  by (auto simp: filter_empty_conv)

lemma only_changed:
  "(\<forall>c\<in>set changes. type c = Changed)
   = (\<not> (\<exists>c\<in>set changes. type c = Created \<or> type c = Deleted))"
  by (metis FileChangeType.distinct(1,5) FileChangeType.exhaust)

lemma onWorkspaceFilesChanged_cases:
  "onWorkspaceFilesChanged e changes st =
     (if \<exists>c\<in>set changes. type c = Created \<or> type c = Deleted
      then ((changeLoop e changes st)\<lparr>parsedCommandLine := createParsedCommandLine e,
              typeRootVersion := typeRootVersion (changeLoop e changes st) + 1\<rparr>,
            [CreateParsedCommandLine])
      else (changeLoop e changes st, []))"
  unfolding onWorkspaceFilesChanged_def Let_def creates_or_deletes by (rule refl)

lemma onWorkspaceFilesChanged_scripts:
  "scripts (fst (onWorkspaceFilesChanged e changes st)) = scripts (changeLoop e changes st)"
  by (simp add: onWorkspaceFilesChanged_cases)

lemma onWorkspaceFilesChanged_vueLs:
  "vueLs (fst (onWorkspaceFilesChanged e changes st)) = vueLs st"
  by (simp add: onWorkspaceFilesChanged_cases changeLoop_frame)

text \<open>
  C3. A \<open>Changed\<close> or \<open>Created\<close> event on a path that has an entry sets the entry's
  version to \<open>- 1\<close> when it was \<open>\<ge> 0\<close> and decrements it when it was negative, and
  changes nothing else of the entry. So the version after the event differs from the one
  before, and after a second \<open>Changed\<close> event on the same path (in the same batch or in
  the next one, nothing read in between) it differs again from the version after the first.
\<close>

theorem changed_invalidates_version:
  assumes "scripts st (uriKey e (uri c1)) = Some s"
    and "type c1 = Changed \<or> type c1 = Created"
    and "type c2 = Changed"
    and "uriKey e (uri c2) = uriKey e (uri c1)"
  shows "scripts (changeLoopBody e c1 st) (uriKey e (uri c1))
           = Some (s\<lparr>version := (if version s \<ge> 0 then - 1 else version s - 1)\<rparr>) \<and>
         map_option version (scripts (fst (onWorkspaceFilesChanged e [c1] st)) (uriKey e (uri c1)))
           \<noteq> map_option version (scripts st (uriKey e (uri c1))) \<and>
         map_option version
             (scripts (fst (onWorkspaceFilesChanged e [c1, c2] st)) (uriKey e (uri c1)))
           \<noteq> map_option version
               (scripts (fst (onWorkspaceFilesChanged e [c1] st)) (uriKey e (uri c1))) \<and>
         map_option version
             (scripts (fst (onWorkspaceFilesChanged e [c2] (fst (onWorkspaceFilesChanged e [c1] st))))
                (uriKey e (uri c1)))
           = map_option version
               (scripts (fst (onWorkspaceFilesChanged e [c1, c2] st)) (uriKey e (uri c1)))"
  using assms
  by (auto simp: onWorkspaceFilesChanged_scripts changeLoopBody_def Let_def)

theorem changed_invalidates_version_witness:
  "scripts st0 (uriKey env0 (uri changed_a)) = Some entry0 \<and>
   type changed_a = Changed \<and>
   scripts (changeLoopBody env0 changed_a st0) ''file:///a.ts'' = Some (entry0\<lparr>version := - 1\<rparr>) \<and>
   map_option version
     (scripts (fst (onWorkspaceFilesChanged env0 [changed_a, changed_a] st0)) ''file:///a.ts'')
     \<noteq> map_option version
         (scripts (fst (onWorkspaceFilesChanged env0 [changed_a] st0)) ''file:///a.ts'')"
proof -
  have h1: "scripts st0 (uriKey env0 (uri changed_a)) = Some entry0"
    by (simp add: st0_def env0_def changed_a_def)
  have h2: "type changed_a = Changed \<or> type changed_a = Created"
    and h3: "type changed_a = Changed"
    by (simp_all add: changed_a_def)
  have k: "uriKey env0 (uri changed_a) = ''file:///a.ts''"
    by (simp add: env0_def changed_a_def)
  have v: "version entry0 = 0"
    by (simp add: entry0_def)
  from changed_invalidates_version [OF h1 h2 h3 refl] h1 h3 show ?thesis
    by (simp add: k v)
qed

text \<open>
  C4. A batch that contains at least one \<open>Created\<close> or \<open>Deleted\<close> event makes
  \<open>onWorkspaceFilesChanged\<close> call \<open>createParsedCommandLine\<close> once and add one to
  \<open>typeRootVersion\<close>, however many such events there are; a batch of \<open>Changed\<close> events
  only leaves \<open>typeRootVersion\<close> and \<open>parsedCommandLine\<close> as they were and makes no call.
  \<open>onDocumentUpdated\<close> leaves \<open>typeRootVersion\<close> as it was.
\<close>

theorem onWorkspaceFilesChanged_typeRootVersion:
  "((\<exists>c\<in>set changes. type c = Created \<or> type c = Deleted) \<longrightarrow>
      typeRootVersion (fst (onWorkspaceFilesChanged e changes st)) = typeRootVersion st + 1 \<and>
      parsedCommandLine (fst (onWorkspaceFilesChanged e changes st)) = createParsedCommandLine e \<and>
      snd (onWorkspaceFilesChanged e changes st) = [CreateParsedCommandLine]) \<and>
   ((\<forall>c\<in>set changes. type c = Changed) \<longrightarrow>
      typeRootVersion (fst (onWorkspaceFilesChanged e changes st)) = typeRootVersion st \<and>
      parsedCommandLine (fst (onWorkspaceFilesChanged e changes st)) = parsedCommandLine st \<and>
      snd (onWorkspaceFilesChanged e changes st) = []) \<and>
   typeRootVersion (onDocumentUpdated st) = typeRootVersion st"
  by (simp add: onWorkspaceFilesChanged_cases only_changed changeLoop_frame onDocumentUpdated_def)

theorem onWorkspaceFilesChanged_typeRootVersion_witness:
  "type created_new = Created \<and> type deleted_old = Deleted \<and>
   typeRootVersion (fst (onWorkspaceFilesChanged env0 [created_new, deleted_old] st0)) = 1 \<and>
   parsedCommandLine (fst (onWorkspaceFilesChanged env0 [created_new, deleted_old] st0)) = [''/a.ts''] \<and>
   snd (onWorkspaceFilesChanged env0 [created_new, deleted_old] st0) = [CreateParsedCommandLine] \<and>
   type changed_a = Changed \<and>
   typeRootVersion (fst (onWorkspaceFilesChanged env0 [changed_a, changed_a] st0)) = 0 \<and>
   parsedCommandLine (fst (onWorkspaceFilesChanged env0 [changed_a, changed_a] st0)) = [] \<and>
   snd (onWorkspaceFilesChanged env0 [changed_a, changed_a] st0) = []"
  using onWorkspaceFilesChanged_typeRootVersion [of "[created_new, deleted_old]" env0 st0]
    onWorkspaceFilesChanged_typeRootVersion [of "[changed_a, changed_a]" env0 st0]
  by (simp add: created_new_def deleted_old_def changed_a_def st0_def env0_def)

section \<open>Snapshots\<close>

text \<open>
  C2. For a path that is not an open document and has an entry, \<open>getScriptSnapshot\<close>
  returns the entry's cached snapshot, touching neither the project nor the file system,
  when the entry's \<open>snapshotVersion\<close> equals its \<open>version\<close>; when it does not, the
  result comes from the file system (\<open>fileExists\<close>, then \<open>readFile\<close>). For an open
  document the document's own snapshot is returned, whatever the registry holds.
\<close>

theorem getScriptSnapshot_precedence:
  "(documents_fsPathGet e f = Some doc \<longrightarrow>
      getScriptSnapshot e st f = (Some (getSnapshot doc), st, [])) \<and>
   (documents_fsPathGet e f = None \<and> scripts st (fsPathKey e f) = Some s \<longrightarrow>
      (snapshotVersion s = Some (version s) \<longrightarrow>
         getScriptSnapshot e st f = (snapshot s, st, [])) \<and>
      (snapshotVersion s \<noteq> Some (version s) \<longrightarrow>
         fst (getScriptSnapshot e st f) =
           (if fileExists e f then map_option ScriptSnapshot_fromString (readFile e f) else None) \<and>
         snd (snd (getScriptSnapshot e st f)) =
           FileExists f # (if fileExists e f then [ReadFile f] else [])))"
  by (auto simp: getScriptSnapshot_def readFromSys_def Let_def split: option.splits)

theorem getScriptSnapshot_precedence_witness:
  "documents_fsPathGet env0 ''/open.ts''
     = Some \<lparr> doc_version = 3, getSnapshot = ScriptSnapshot_fromString ''live'' \<rparr> \<and>
   getScriptSnapshot env0 st0 ''/open.ts'' = (Some (ScriptSnapshot_fromString ''live''), st0, []) \<and>
   documents_fsPathGet env0 ''/a.ts'' = None \<and>
   scripts st0 (fsPathKey env0 ''/a.ts'') = Some entry0 \<and>
   snapshotVersion entry0 = Some (version entry0) \<and>
   getScriptSnapshot env0 st0 ''/a.ts'' = (Some (ScriptSnapshot_fromString ''old''), st0, []) \<and>
   scripts st1 (fsPathKey env0 ''/a.ts'') = Some (entry0\<lparr>version := - 1\<rparr>) \<and>
   snapshotVersion (entry0\<lparr>version := - 1\<rparr>) \<noteq> Some (version (entry0\<lparr>version := - 1\<rparr>)) \<and>
   fst (getScriptSnapshot env0 st1 ''/a.ts'') = Some (ScriptSnapshot_fromString ''let a'') \<and>
   snd (snd (getScriptSnapshot env0 st1 ''/a.ts'')) = [FileExists ''/a.ts'', ReadFile ''/a.ts'']"
proof -
  have d: "documents_fsPathGet env0 ''/open.ts''
      = Some \<lparr> doc_version = 3, getSnapshot = ScriptSnapshot_fromString ''live'' \<rparr>"
    and n: "documents_fsPathGet env0 ''/a.ts'' = None"
    and x: "fileExists env0 ''/a.ts''"
    and r: "readFile env0 ''/a.ts'' = Some ''let a''"
    by (simp_all add: env0_def)
  have s0: "scripts st0 (fsPathKey env0 ''/a.ts'') = Some entry0"
    and s1: "scripts st1 (fsPathKey env0 ''/a.ts'') = Some (entry0\<lparr>version := - 1\<rparr>)"
    by (simp_all add: st0_def st1_def env0_def)
  have v: "snapshotVersion entry0 = Some (version entry0)"
    and w: "snapshotVersion (entry0\<lparr>version := - 1\<rparr>) \<noteq> Some (version (entry0\<lparr>version := - 1\<rparr>))"
    and c: "snapshot entry0 = Some (ScriptSnapshot_fromString ''old'')"
    by (simp_all add: entry0_def)
  from getScriptSnapshot_precedence
         [of env0 "''/open.ts''"
             "\<lparr> doc_version = 3, getSnapshot = ScriptSnapshot_fromString ''live'' \<rparr>" st0 entry0]
       getScriptSnapshot_precedence [of env0 "''/a.ts''" _ st0 entry0]
       getScriptSnapshot_precedence [of env0 "''/a.ts''" _ st1 "entry0\<lparr>version := - 1\<rparr>"]
       d n x r s0 s1 v w c
  show ?thesis by simp
qed

lemma readFromSys_frame:
  "typeRootVersion (fst (snd (readFromSys e st f))) = typeRootVersion st"
  "projectVersion (fst (snd (readFromSys e st f))) = projectVersion st"
  "parsedCommandLine (fst (snd (readFromSys e st f))) = parsedCommandLine st"
  "vueLs (fst (snd (readFromSys e st f))) = vueLs st"
  by (simp_all add: readFromSys_def Let_def split: option.splits)

lemma getScriptSnapshot_frame:
  "typeRootVersion (fst (snd (getScriptSnapshot e st f))) = typeRootVersion st"
  "projectVersion (fst (snd (getScriptSnapshot e st f))) = projectVersion st"
  "parsedCommandLine (fst (snd (getScriptSnapshot e st f))) = parsedCommandLine st"
  "vueLs (fst (snd (getScriptSnapshot e st f))) = vueLs st"
  by (simp_all add: getScriptSnapshot_def readFromSys_frame split: option.splits)

lemma readFromSys_other:
  "k \<noteq> fsPathKey e f \<Longrightarrow> scripts (fst (snd (readFromSys e st f))) k = scripts st k"
  by (simp add: readFromSys_def Let_def split: option.splits)

lemma getScriptSnapshot_other:
  "k \<noteq> fsPathKey e f \<Longrightarrow> scripts (fst (snd (getScriptSnapshot e st f))) k = scripts st k"
  by (simp add: getScriptSnapshot_def readFromSys_other split: option.splits)

lemma readFromSys_entry:
  "scripts st (fsPathKey e f) = Some s \<Longrightarrow>
     scripts (fst (snd (readFromSys e st f))) (fsPathKey e f) =
       (if fileExists e f \<and> readFile e f \<noteq> None
        then Some (s\<lparr>snapshot := Some (ScriptSnapshot_fromString (the (readFile e f))),
                      snapshotVersion := Some (version s)\<rparr>)
        else Some s)"
  by (auto simp: readFromSys_def Let_def split: option.splits)

text \<open>
  C9. For a path that is not an open document and has no entry, a \<open>getScriptSnapshot\<close>
  that finds the file and reads its text stores a new entry with \<open>version\<close> and
  \<open>snapshotVersion\<close> both \<open>- 1\<close>; the next \<open>getScriptVersion\<close> of the path returns
  the string \<open>-1\<close>, and the next \<open>getScriptSnapshot\<close> returns the stored snapshot without
  going to the file system.
\<close>

theorem getScriptSnapshot_creates_entry:
  assumes "documents_fsPathGet e f = None"
    and "scripts st (fsPathKey e f) = None"
    and "fileExists e f"
    and "readFile e f = Some text"
  shows "fst (getScriptSnapshot e st f) = Some (ScriptSnapshot_fromString text) \<and>
         scripts (fst (snd (getScriptSnapshot e st f))) (fsPathKey e f) =
           Some \<lparr> version = - 1, fileName = f,
                  snapshot = Some (ScriptSnapshot_fromString text),
                  snapshotVersion = Some (- 1) \<rparr> \<and>
         getScriptVersion e (fst (snd (getScriptSnapshot e st f))) f = ''-1'' \<and>
         getScriptSnapshot e (fst (snd (getScriptSnapshot e st f))) f =
           (Some (ScriptSnapshot_fromString text), fst (snd (getScriptSnapshot e st f)), [])"
  using assms
  by (simp add: getScriptSnapshot_def readFromSys_def getScriptVersion_def toString_def Let_def)

theorem getScriptSnapshot_creates_entry_witness:
  "documents_fsPathGet env0 ''/a.ts'' = None \<and>
   scripts (createProject env0) (fsPathKey env0 ''/a.ts'') = None \<and>
   fileExists env0 ''/a.ts'' \<and>
   readFile env0 ''/a.ts'' = Some ''let a'' \<and>
   fst (getScriptSnapshot env0 (createProject env0) ''/a.ts'')
     = Some (ScriptSnapshot_fromString ''let a'') \<and>
   scripts (fst (snd (getScriptSnapshot env0 (createProject env0) ''/a.ts''))) ''file:///a.ts'' =
     Some \<lparr> version = - 1, fileName = ''/a.ts'',
            snapshot = Some (ScriptSnapshot_fromString ''let a''),
            snapshotVersion = Some (- 1) \<rparr> \<and>
   getScriptVersion env0 (fst (snd (getScriptSnapshot env0 (createProject env0) ''/a.ts''))) ''/a.ts''
     = ''-1''"
proof -
  have n: "documents_fsPathGet env0 ''/a.ts'' = None"
    and x: "fileExists env0 ''/a.ts''"
    and r: "readFile env0 ''/a.ts'' = Some ''let a''"
    and k: "fsPathKey env0 ''/a.ts'' = ''file:///a.ts''"
    by (simp_all add: env0_def)
  have s: "scripts (createProject env0) (fsPathKey env0 ''/a.ts'') = None"
    by (simp add: createProject_def)
  from getScriptSnapshot_creates_entry [OF n s x r] n s x r show ?thesis
    by (simp add: k)
qed

text \<open>
  C10. \<open>getScriptSnapshot\<close> changes nothing but the snapshot cache of the entry it is
  asked for: \<open>typeRootVersion\<close>, \<open>projectVersion\<close>, \<open>parsedCommandLine\<close> and \<open>vueLs\<close>
  stay as they were; the entries of other paths stay as they were (none added, none
  removed); every entry that existed still exists with the same \<open>version\<close> and
  \<open>fileName\<close>; and the entry asked for, when it existed, is either unchanged or, its cache
  being stale, has only \<open>snapshot\<close> and \<open>snapshotVersion\<close> replaced.
\<close>

theorem getScriptSnapshot_readonly:
  "typeRootVersion (fst (snd (getScriptSnapshot e st f))) = typeRootVersion st \<and>
   projectVersion (fst (snd (getScriptSnapshot e st f))) = projectVersion st \<and>
   parsedCommandLine (fst (snd (getScriptSnapshot e st f))) = parsedCommandLine st \<and>
   vueLs (fst (snd (getScriptSnapshot e st f))) = vueLs st \<and>
   (k \<noteq> fsPathKey e f \<longrightarrow> scripts (fst (snd (getScriptSnapshot e st f))) k = scripts st k) \<and>
   (scripts st k = Some s \<longrightarrow>
      (\<exists>s'. scripts (fst (snd (getScriptSnapshot e st f))) k = Some s' \<and>
            version s' = version s \<and> fileName s' = fileName s)) \<and>
   (scripts st (fsPathKey e f) = Some s \<longrightarrow>
      scripts (fst (snd (getScriptSnapshot e st f))) (fsPathKey e f) = Some s \<or>
      (\<exists>snap. snapshotVersion s \<noteq> Some (version s) \<and>
         scripts (fst (snd (getScriptSnapshot e st f))) (fsPathKey e f) =
           Some (s\<lparr>snapshot := Some snap, snapshotVersion := Some (version s)\<rparr>)))"
proof -
  have other:
    "k \<noteq> fsPathKey e f \<longrightarrow> scripts (fst (snd (getScriptSnapshot e st f))) k = scripts st k"
    by (simp add: getScriptSnapshot_other)
  have own: "scripts (fst (snd (getScriptSnapshot e st f))) (fsPathKey e f) = Some s' \<or>
      (\<exists>snap. snapshotVersion s' \<noteq> Some (version s') \<and>
         scripts (fst (snd (getScriptSnapshot e st f))) (fsPathKey e f) =
           Some (s'\<lparr>snapshot := Some snap, snapshotVersion := Some (version s')\<rparr>))"
    if "scripts st (fsPathKey e f) = Some s'" for s'
    using that by (auto simp: getScriptSnapshot_def readFromSys_entry split: option.splits)
  have keep: "\<exists>s'. scripts (fst (snd (getScriptSnapshot e st f))) k = Some s' \<and>
            version s' = version s \<and> fileName s' = fileName s"
    if k: "scripts st k = Some s"
  proof (cases "k = fsPathKey e f")
    case True
    with own [of s] k show ?thesis by auto
  next
    case False
    with other k show ?thesis by simp
  qed
  show ?thesis
    using other own keep by (simp add: getScriptSnapshot_frame)
qed

theorem getScriptSnapshot_readonly_witness:
  "scripts st1 ''file:///a.ts'' = Some (entry0\<lparr>version := - 1\<rparr>) \<and>
   ''file:///b.ts'' \<noteq> fsPathKey env0 ''/a.ts'' \<and>
   projectVersion (fst (snd (getScriptSnapshot env0 st1 ''/a.ts''))) = 1 \<and>
   typeRootVersion (fst (snd (getScriptSnapshot env0 st1 ''/a.ts''))) = 0 \<and>
   vueLs (fst (snd (getScriptSnapshot env0 st1 ''/a.ts''))) = Some 1 \<and>
   scripts (fst (snd (getScriptSnapshot env0 st1 ''/a.ts''))) ''file:///b.ts'' = None \<and>
   map_option version (scripts (fst (snd (getScriptSnapshot env0 st1 ''/a.ts''))) ''file:///a.ts'')
     = Some (- 1)"
proof -
  have k: "fsPathKey env0 ''/a.ts'' = ''file:///a.ts''"
    by (simp add: env0_def)
  have s: "scripts st1 ''file:///a.ts'' = Some (entry0\<lparr>version := - 1\<rparr>)"
    and b: "scripts st1 ''file:///b.ts'' = None"
    and c: "projectVersion st1 = 1" "typeRootVersion st1 = 0" "vueLs st1 = Some 1"
    by (simp_all add: st1_def)
  from getScriptSnapshot_readonly [of env0 st1 "''/a.ts''" "''file:///b.ts''" entry0]
       getScriptSnapshot_readonly
         [of env0 st1 "''/a.ts''" "''file:///a.ts''" "entry0\<lparr>version := - 1\<rparr>"]
       s b c
  show ?thesis by (auto simp: k)
qed

section \<open>Content resolution\<close>

lemma indexOf_absent: "c \<notin> set u \<Longrightarrow> indexOf u c = - 1"
  by (induction u) auto

lemma indexOf_present:
  "c \<in> set u \<Longrightarrow> indexOf u c = int (length (takeWhile (\<lambda>x. x \<noteq> c) u))"
  by (induction u) (auto simp: Let_def)

text \<open>The protocol is the text before the first colon, and empty when there is none.\<close>

lemma protocol_scheme:
  "substring0 u (indexOf u c) =
     (if c \<in> set u then takeWhile (\<lambda>x. x \<noteq> c) u else [])"
  by (simp add: substring0_def indexOf_absent indexOf_present takeWhile_eq_take [symmetric])

lemma schemaRequest_project: "fst (snd (schemaRequest e u st)) = st"
  by (simp add: schemaRequest_def Let_def split: option.splits property.splits sum.splits)

text \<open>
  Where the protocol names an own handler, or names nothing at all on the handlers object
  and its prototype, the content resolution does what it is meant to: the handler's
  promise; otherwise, when \<open>options.languageFeatures.schemaRequestService\<close> is set, one
  request, whose text is the result and whose failure is a rejection carrying the error's
  message; otherwise a rejection with a fixed message and nothing sent. In every case,
  the inherited properties included, the project is left as it was and at most one call
  is made.
\<close>

lemma schemaRequest_own_or_absent:
  "(schemaRequestHandlers e (substring0 u (indexOf u CHR '':'')) = Some h \<longrightarrow>
      schemaRequest e u st =
        (Promise (h u), st, [BuiltInHandler (substring0 u (indexOf u CHR '':'')) u])) \<and>
   (schemaRequestHandlers e (substring0 u (indexOf u CHR '':'')) = None \<and>
    Object_prototype (substring0 u (indexOf u CHR '':'')) = None \<and>
    languageFeatures (options e) = Some lf \<and> schemaRequestService lf \<longrightarrow>
      (sendRequest e u = Inr responseText \<longrightarrow>
         schemaRequest e u st = (Promise (Resolved responseText), st, [SendRequest u])) \<and>
      (sendRequest e u = Inl err \<longrightarrow>
         schemaRequest e u st = (Promise (Rejected (message err)), st, [SendRequest u]))) \<and>
   (schemaRequestHandlers e (substring0 u (indexOf u CHR '':'')) = None \<and>
    Object_prototype (substring0 u (indexOf u CHR '':'')) = None \<and>
    (languageFeatures (options e) = None \<or>
     languageFeatures (options e) = Some lf \<and> \<not> schemaRequestService lf) \<longrightarrow>
      schemaRequest e u st =
        (Promise (Rejected ''clientHandledGetDocumentContentRequest is false''), st, [])) \<and>
   fst (snd (schemaRequest e u st)) = st \<and>
   length (snd (snd (schemaRequest e u st))) \<le> 1"
  by (auto simp: schemaRequest_def getProperty_def Let_def
      split: option.splits property.splits sum.splits)

text \<open>
  C8. The content resolution on a URI whose protocol has no handler but is the name of a
  property that the handlers object inherits. With \<open>http\<close> the only handler and the
  remote content request enabled, \<open>constructor:x\<close> and \<open>__proto__:x\<close> should be
  fetched through the connection. Instead, for \<open>constructor:x\<close> line 59 calls the
  inherited \<open>Object\<close> and returns its result, which is no promise; for \<open>__proto__:x\<close>
  it tries to call \<open>Object.prototype\<close> and throws a \<open>TypeError\<close>. Neither sends the
  request nor rejects. A protocol that names nothing, such as \<open>vscode\<close>, is fetched.
\<close>

theorem schemaRequest_inherited_property:
  "schemaRequestHandlers env0 ''constructor'' = None \<and>
   schemaRequestHandlers env0 ''__proto__'' = None \<and>
   languageFeatures (options env0) = Some \<lparr> schemaRequestService = True \<rparr> \<and>
   schemaRequest env0 ''constructor:x'' st0
     = (NotAPromise, st0, [BuiltInHandler ''constructor'' ''constructor:x'']) \<and>
   schemaRequest env0 ''__proto__:x'' st0 = (TypeError, st0, []) \<and>
   schemaRequest env0 ''vscode://schemas/x'' st0
     = (Promise (Resolved ''schema''), st0, [SendRequest ''vscode://schemas/x''])"
  by (simp add: schemaRequest_def getProperty_def Object_prototype_def substring0_def env0_def)

section \<open>The language service instance\<close>

lemma getLanguageService_memo: "vueLs st = Some l \<Longrightarrow> getLanguageService e st = (l, st, [])"
  by (simp add: getLanguageService_def)

lemma getLanguageService_sets:
  "vueLs (fst (snd (getLanguageService e st))) = Some (fst (getLanguageService e st))"
  by (simp add: getLanguageService_def split: option.splits)

lemma getLanguageService_scripts:
  "scripts (fst (snd (getLanguageService e st))) = scripts st"
  by (simp add: getLanguageService_def split: option.splits)

lemma getLanguageService_count:
  "count_list (snd (snd (getLanguageService e st))) CreateLanguageService
     = (if vueLs st = None then 1 else 0)"
  by (simp add: getLanguageService_def split: option.splits)

lemma getScriptSnapshot_calls:
  "CreateLanguageService \<notin> set (snd (snd (getScriptSnapshot e st f)))"
  by (simp add: getScriptSnapshot_def readFromSys_def Let_def split: option.splits)

lemma schemaRequest_calls:
  "CreateLanguageService \<notin> set (snd (snd (schemaRequest e u st)))"
  by (simp add: schemaRequest_def Let_def split: option.splits property.splits sum.splits)

lemma exec_vueLs:
  assumes "vueLs st = Some l"
  shows "vueLs (fst (exec e operation st)) = Some l"
    and "CreateLanguageService \<notin> set (snd (exec e operation st))"
  using assms
  by (cases operation;
      simp add: onWorkspaceFilesChanged_cases changeLoop_frame onDocumentUpdated_def
        getLanguageService_memo dispose_def getScriptSnapshot_frame getScriptSnapshot_calls
        schemaRequest_project schemaRequest_calls)+

lemma run_Cons:
  "run ((e, operation) # rest) st =
     (fst (run rest (fst (exec e operation st))),
      snd (exec e operation st) @ snd (run rest (fst (exec e operation st))))"
  by (simp add: split_beta)

lemma run_vueLs:
  "vueLs st = Some l \<Longrightarrow>
     vueLs (fst (run ops st)) = Some l \<and> CreateLanguageService \<notin> set (snd (run ops st))"
proof (induction ops arbitrary: st)
  case Nil
  then show ?case by simp
next
  case (Cons a ops)
  obtain e operation where a: "a = (e, operation)" by (cases a)
  from Cons.prems have 1: "vueLs (fst (exec e operation st)) = Some l"
    and 2: "CreateLanguageService \<notin> set (snd (exec e operation st))"
    by (rule exec_vueLs)+
  from Cons.IH [OF 1] 2 show ?case
    unfolding a run_Cons by simp
qed

text \<open>
  C6. \<open>getLanguageService\<close> is memoized. Take any call of it, then any sequence of
  calls on the project that contains no \<open>dispose\<close> (each in its own environment,
  \<open>getLanguageService\<close> itself included), then a second call: the second call returns the
  instance the first one returned, and over the whole sequence the factory
  \<open>createLanguageService\<close> has been called at most once.
\<close>

theorem getLanguageService_memoized:
  assumes "Dispose \<notin> snd ` set ops"
  shows "fst (getLanguageService e2 (fst (run ops (fst (snd (getLanguageService e1 st))))))
           = fst (getLanguageService e1 st) \<and>
         count_list
           (snd (snd (getLanguageService e1 st)) @
            snd (run ops (fst (snd (getLanguageService e1 st)))) @
            snd (snd (getLanguageService e2 (fst (run ops (fst (snd (getLanguageService e1 st))))))))
           CreateLanguageService \<le> 1"
proof -
  let ?l = "fst (getLanguageService e1 st)"
  let ?st1 = "fst (snd (getLanguageService e1 st))"
  have "vueLs ?st1 = Some ?l"
    by (rule getLanguageService_sets)
  from run_vueLs [OF this, of ops]
  have r: "vueLs (fst (run ops ?st1)) = Some ?l"
    and c: "CreateLanguageService \<notin> set (snd (run ops ?st1))"
    by simp_all
  from r have m: "getLanguageService e2 (fst (run ops ?st1)) = (?l, fst (run ops ?st1), [])"
    by (rule getLanguageService_memo)
  from c have "count_list (snd (run ops ?st1)) CreateLanguageService = 0"
    by (simp add: count_list_0_iff)
  then show ?thesis
    by (simp add: m getLanguageService_count)
qed

theorem getLanguageService_memoized_witness:
  "Dispose \<notin> snd ` set [(env1, OnDocumentUpdated), (env1, GetScriptSnapshot ''/a.ts''),
                      (env1, GetLanguageService), (env1, OnWorkspaceFilesChanged [changed_a])] \<and>
   fst (getLanguageService env0 st0) = 1 \<and>
   createLanguageService env1 = 2 \<and>
   fst (getLanguageService env1
     (fst (run [(env1, OnDocumentUpdated), (env1, GetScriptSnapshot ''/a.ts''),
                (env1, GetLanguageService), (env1, OnWorkspaceFilesChanged [changed_a])]
            (fst (snd (getLanguageService env0 st0)))))) = 1"
proof -
  have h: "Dispose \<notin> snd ` set [(env1, OnDocumentUpdated), (env1, GetScriptSnapshot ''/a.ts''),
                      (env1, GetLanguageService), (env1, OnWorkspaceFilesChanged [changed_a])]"
    by simp
  have l: "fst (getLanguageService env0 st0) = 1"
    by (simp add: getLanguageService_def st0_def env0_def)
  have f: "createLanguageService env1 = 2"
    by (simp add: env1_def)
  from getLanguageService_memoized [OF h, of env1 env0 st0] h l f show ?thesis
    by simp
qed

section \<open>Deleted files\<close>

lemma changeLoopBody_absent:
  "scripts st k = None \<Longrightarrow> scripts (changeLoopBody e change st) k = None"
  by (cases "scripts st (uriKey e (uri change))") (auto simp: changeLoopBody_def Let_def)

lemma changeLoop_absent:
  "scripts st k = None \<Longrightarrow> scripts (changeLoop e changes st) k = None"
  by (induction changes arbitrary: st) (simp_all add: changeLoopBody_absent)

lemma changeLoopBody_deleted:
  "type change = Deleted \<Longrightarrow> scripts (changeLoopBody e change st) (uriKey e (uri change)) = None"
  by (simp add: changeLoopBody_def Let_def split: option.splits)

lemma changeLoop_append:
  "changeLoop e (xs @ ys) st = changeLoop e ys (changeLoop e xs st)"
  by (induction xs arbitrary: st) simp_all

lemma changeLoop_deleted:
  "type change = Deleted \<Longrightarrow>
     scripts (changeLoop e (evs1 @ change # evs2) st) (uriKey e (uri change)) = None"
  by (simp add: changeLoop_append changeLoop_absent changeLoopBody_deleted)

lemma readFromSys_absent:
  "scripts st (fsPathKey e f) = None \<Longrightarrow> \<not> fileExists e f \<or> readFile e f = None \<Longrightarrow>
     scripts (fst (snd (readFromSys e st f))) (fsPathKey e f) = None"
  by (auto simp: readFromSys_def)

lemma getScriptSnapshot_absent:
  assumes "scripts st k = None"
    and "fsPathKey e f = k \<Longrightarrow>
           documents_fsPathGet e f \<noteq> None \<or> \<not> fileExists e f \<or> readFile e f = None"
  shows "scripts (fst (snd (getScriptSnapshot e st f))) k = None"
proof (cases "k = fsPathKey e f")
  case True
  with assms show ?thesis
    by (auto simp: getScriptSnapshot_def readFromSys_absent split: option.splits)
next
  case False
  with assms(1) show ?thesis
    by (simp add: getScriptSnapshot_other)
qed

lemma exec_absent:
  assumes "scripts st k = None"
    and "\<And>f. operation = GetScriptSnapshot f \<Longrightarrow> fsPathKey e f = k \<Longrightarrow>
           documents_fsPathGet e f \<noteq> None \<or> \<not> fileExists e f \<or> readFile e f = None"
  shows "scripts (fst (exec e operation st)) k = None"
proof (cases operation)
  case (GetScriptSnapshot f)
  with assms show ?thesis
    by (simp add: getScriptSnapshot_absent)
qed (use assms(1) in \<open>simp_all add: onWorkspaceFilesChanged_scripts changeLoop_absent
      onDocumentUpdated_def getLanguageService_scripts dispose_def schemaRequest_project\<close>)

lemma run_absent:
  assumes "scripts st k = None"
    and "\<forall>(e, operation)\<in>set ops. \<forall>f. operation = GetScriptSnapshot f \<and> fsPathKey e f = k \<longrightarrow>
           documents_fsPathGet e f \<noteq> None \<or> \<not> fileExists e f \<or> readFile e f = None"
  shows "scripts (fst (run ops st)) k = None"
  using assms
proof (induction ops arbitrary: st)
  case Nil
  then show ?case by simp
next
  case (Cons a ops)
  obtain e operation where a: "a = (e, operation)" by (cases a)
  have "scripts (fst (exec e operation st)) k = None"
    using Cons.prems by (intro exec_absent) (auto simp: a)
  then have "scripts (fst (run ops (fst (exec e operation st)))) k = None"
    using Cons.prems(2) by (intro Cons.IH) auto
  then show ?case
    unfolding a run_Cons by simp
qed

text \<open>
  C7, as the code has it. A \<open>Deleted\<close> event for a path that has an entry removes the
  entry. After a batch containing such an event (whatever events precede or follow it in
  the batch), the path stays without an entry through every later call on the project,
  \<open>Created\<close> events included, except a \<open>getScriptSnapshot\<close> of that path that finds the
  file on disk and reads it; so as long as no such snapshot read happens and the path is not
  an open document, \<open>getScriptVersion\<close> returns the empty string for it.
\<close>

theorem deleted_entry_stays_untracked:
  assumes "type change = Deleted"
    and "scripts st (uriKey e (uri change)) = Some s"
    and "\<forall>(e', operation)\<in>set ops. \<forall>f'.
           operation = GetScriptSnapshot f' \<and> fsPathKey e' f' = uriKey e (uri change) \<longrightarrow>
           documents_fsPathGet e' f' \<noteq> None \<or> \<not> fileExists e' f' \<or> readFile e' f' = None"
    and "fsPathKey e2 f = uriKey e (uri change)"
    and "documents_fsPathGet e2 f = None"
  shows "scripts (changeLoopBody e change st) (uriKey e (uri change)) = None \<and>
         scripts (fst (run ops (fst (onWorkspaceFilesChanged e (evs1 @ change # evs2) st))))
           (uriKey e (uri change)) = None \<and>
         getScriptVersion e2
           (fst (run ops (fst (onWorkspaceFilesChanged e (evs1 @ change # evs2) st)))) f = []"
proof -
  have "scripts (fst (onWorkspaceFilesChanged e (evs1 @ change # evs2) st)) (uriKey e (uri change))
      = None"
    using assms(1) by (simp add: onWorkspaceFilesChanged_scripts changeLoop_deleted)
  then have "scripts (fst (run ops (fst (onWorkspaceFilesChanged e (evs1 @ change # evs2) st))))
      (uriKey e (uri change)) = None"
    using assms(3) by (rule run_absent)
  then show ?thesis
    using assms(1,4,5) by (simp add: changeLoopBody_deleted getScriptVersion_def)
qed

theorem deleted_entry_stays_untracked_witness:
  "type deleted_a = Deleted \<and>
   scripts st0 (uriKey env0 (uri deleted_a)) = Some entry0 \<and>
   fsPathKey env0 ''/a.ts'' = uriKey env0 (uri deleted_a) \<and>
   documents_fsPathGet env0 ''/a.ts'' = None \<and>
   getScriptVersion env0
     (fst (run [(env0, OnWorkspaceFilesChanged [created_new]), (env0, GetScriptSnapshot ''/locked.ts''),
                (env0, OnDocumentUpdated)]
            (fst (onWorkspaceFilesChanged env0 ([changed_a] @ deleted_a # [changed_a]) st0))))
     ''/a.ts'' = []"
proof -
  have h1: "type deleted_a = Deleted"
    by (simp add: deleted_a_def)
  have h2: "scripts st0 (uriKey env0 (uri deleted_a)) = Some entry0"
    by (simp add: st0_def env0_def deleted_a_def)
  have h3: "\<forall>(e', operation)\<in>set [(env0, OnWorkspaceFilesChanged [created_new]),
                (env0, GetScriptSnapshot ''/locked.ts''), (env0, OnDocumentUpdated)]. \<forall>f'.
           operation = GetScriptSnapshot f' \<and> fsPathKey e' f' = uriKey env0 (uri deleted_a) \<longrightarrow>
           documents_fsPathGet e' f' \<noteq> None \<or> \<not> fileExists e' f' \<or> readFile e' f' = None"
    by (simp add: env0_def deleted_a_def)
  have h4: "fsPathKey env0 ''/a.ts'' = uriKey env0 (uri deleted_a)"
    by (simp add: env0_def deleted_a_def)
  have h5: "documents_fsPathGet env0 ''/a.ts'' = None"
    by (simp add: env0_def)
  from deleted_entry_stays_untracked [OF h1 h2 h3 h4 h5, of "[changed_a]" "[changed_a]"]
       h1 h2 h4 h5
  show ?thesis by simp
qed

text \<open>
  The claim C7 as the specification words it lets anything but a \<open>Created\<close> event
  happen between the \<open>Deleted\<close> event and the version lookup. A snapshot read in between
  tracks the path again: \<open>/a.ts\<close> is deleted, read (the file is on disk again), and
  its version is then \<open>-1\<close>, not the empty string.
\<close>

theorem deleted_then_snapshot_counterexample:
  "getScriptVersion env0
     (fst (run [(env0, OnWorkspaceFilesChanged [deleted_a]), (env0, GetScriptSnapshot ''/a.ts'')] st0))
     ''/a.ts'' = ''-1''"
  by (simp add: onWorkspaceFilesChanged_def changeLoopBody_def getScriptSnapshot_def
      readFromSys_def getScriptVersion_def toString_def Let_def env0_def st0_def deleted_a_def
      split: prod.splits)

section \<open>Disposal\<close>

text \<open>
  C5, as the code has it. \<open>dispose\<close> calls the language service's \<open>dispose\<close> when an
  instance exists, makes no call when none was built, empties \<open>scripts\<close> and changes
  nothing else; a second \<open>dispose\<close> leaves the project as the first left it. The project
  has no disposed state: \<open>getParsedCommandLine\<close> changes nothing, as before disposal,
  and the other functions go on working on the disposed project as on any other:
  \<open>onDocumentUpdated\<close> adds one to \<open>projectVersion\<close>, \<open>onWorkspaceFilesChanged\<close> adds one
  for each event, and \<open>getLanguageService\<close> returns the instance already built or builds one.
\<close>

theorem dispose_idempotent:
  "scripts (fst (dispose st)) = Map.empty \<and>
   typeRootVersion (fst (dispose st)) = typeRootVersion st \<and>
   projectVersion (fst (dispose st)) = projectVersion st \<and>
   parsedCommandLine (fst (dispose st)) = parsedCommandLine st \<and>
   vueLs (fst (dispose st)) = vueLs st \<and>
   fst (dispose (fst (dispose st))) = fst (dispose st) \<and>
   (vueLs st = None \<longrightarrow> snd (dispose st) = [] \<and> snd (dispose (fst (dispose st))) = []) \<and>
   (vueLs st \<noteq> None \<longrightarrow>
      snd (dispose st) = [LanguageServiceDispose] \<and>
      snd (dispose (fst (dispose st))) = [LanguageServiceDispose]) \<and>
   exec e GetParsedCommandLine (fst (dispose st)) = (fst (dispose st), []) \<and>
   projectVersion (onDocumentUpdated (fst (dispose st))) = projectVersion st + 1 \<and>
   projectVersion (fst (onWorkspaceFilesChanged e changes (fst (dispose st))))
     = projectVersion st + int (length changes) \<and>
   fst (getLanguageService e (fst (dispose st)))
     = (case vueLs st of Some l \<Rightarrow> l | None \<Rightarrow> createLanguageService e)"
  by (auto simp: dispose_def onDocumentUpdated_def getLanguageService_def
      onWorkspaceFilesChanged_cases changeLoop_projectVersion split: option.splits)

theorem dispose_idempotent_witness:
  "vueLs st0 = None \<and> snd (dispose st0) = [] \<and> snd (dispose (fst (dispose st0))) = [] \<and>
   vueLs st1 = Some 1 \<and> snd (dispose st1) = [LanguageServiceDispose] \<and>
   snd (dispose (fst (dispose st1))) = [LanguageServiceDispose] \<and>
   fst (dispose (fst (dispose st1))) = fst (dispose st1) \<and>
   projectVersion (onDocumentUpdated (fst (dispose st1))) = 2"
proof -
  have v: "vueLs st0 = None" "vueLs st1 = Some 1" "projectVersion st1 = 1"
    by (simp_all add: st0_def st1_def)
  from dispose_idempotent [of st0 env0 "[]"] dispose_idempotent [of st1 env0 "[]"] v
  show ?thesis by simp
qed

text \<open>
  The claim C5 as the specification words it makes every function a no-op after
  \<open>dispose\<close>. On the disposed project \<open>onDocumentUpdated\<close> still changes
  \<open>projectVersion\<close>, and \<open>getLanguageService\<close> still builds an instance.
\<close>

theorem dispose_not_terminal_counterexample:
  "projectVersion (fst (exec env0 OnDocumentUpdated (fst (dispose st0))))
     \<noteq> projectVersion (fst (dispose st0)) \<and>
   vueLs (fst (exec env0 GetLanguageService (fst (dispose st0)))) \<noteq> vueLs (fst (dispose st0)) \<and>
   snd (exec env0 GetLanguageService (fst (dispose st0))) = [LoadCustomPlugins, CreateLanguageService]"
  by (simp add: dispose_def onDocumentUpdated_def getLanguageService_def st0_def)

end
